theory Spec2Isabelle
  imports Main
begin

section \<open>RDF terms, statements and the graph\<close>

text \<open>
  The converter \<^verbatim>\<open>mc2skos.py\<close> builds an rdflib graph. The terms it hands to
  \<^verbatim>\<open>graph.add\<close> are \<^verbatim>\<open>URIRef\<close>, \<^verbatim>\<open>BNode\<close> and \<^verbatim>\<open>Literal\<close> objects and, in one
  place (line 114), the bare result of \<^verbatim>\<open>record.get_uri\<close>, which is kept apart here as
  \<open>PlainStr\<close>. A literal carries its value, its language tag and its datatype IRI.
\<close>

datatype lit_value = LStr string | LBool bool

datatype node =
    URIRef string
  | BNode nat
  | Literal lit_value "string option" "string option"
  | PlainStr string

type_synonym triple = "node \<times> node \<times> node"

text \<open>
  The graph is the sequence of statements added so far (the store's interface is
  add-statement and iteration; the store itself belongs to rdflib), together with the
  number of anonymous nodes created: \<^verbatim>\<open>BNode()\<close> returns a node that was never used
  before, here the next number.
\<close>

record graph =
  triples :: "triple list"
  next_bnode :: nat

definition graph_add :: "triple \<Rightarrow> graph \<Rightarrow> graph" where
  "graph_add t g = g\<lparr>triples := triples g @ [t]\<rparr>"

definition new_BNode :: "graph \<Rightarrow> node \<times> graph" where
  "new_BNode g = (BNode (next_bnode g), g\<lparr>next_bnode := Suc (next_bnode g)\<rparr>)"

subsection \<open>Namespaces (lines 15, 38, 39)\<close>

definition RDF_type :: node where
  "RDF_type = URIRef ''http://www.w3.org/1999/02/22-rdf-syntax-ns#type''"
definition RDF_first :: node where
  "RDF_first = URIRef ''http://www.w3.org/1999/02/22-rdf-syntax-ns#first''"
definition RDF_rest :: node where
  "RDF_rest = URIRef ''http://www.w3.org/1999/02/22-rdf-syntax-ns#rest''"
definition RDF_nil :: node where
  "RDF_nil = URIRef ''http://www.w3.org/1999/02/22-rdf-syntax-ns#nil''"
definition SKOS_Concept :: node where
  "SKOS_Concept = URIRef ''http://www.w3.org/2004/02/skos/core#Concept''"
definition SKOS_topConceptOf :: node where
  "SKOS_topConceptOf = URIRef ''http://www.w3.org/2004/02/skos/core#topConceptOf''"
definition SKOS_inScheme :: node where
  "SKOS_inScheme = URIRef ''http://www.w3.org/2004/02/skos/core#inScheme''"
definition SKOS_notation :: node where
  "SKOS_notation = URIRef ''http://www.w3.org/2004/02/skos/core#notation''"
definition SKOS_prefLabel :: node where
  "SKOS_prefLabel = URIRef ''http://www.w3.org/2004/02/skos/core#prefLabel''"
definition SKOS_altLabel :: node where
  "SKOS_altLabel = URIRef ''http://www.w3.org/2004/02/skos/core#altLabel''"
definition SKOS_broader :: node where
  "SKOS_broader = URIRef ''http://www.w3.org/2004/02/skos/core#broader''"
definition SKOS_definition :: node where
  "SKOS_definition = URIRef ''http://www.w3.org/2004/02/skos/core#definition''"
definition SKOS_editorialNote :: node where
  "SKOS_editorialNote = URIRef ''http://www.w3.org/2004/02/skos/core#editorialNote''"
definition SKOS_scopeNote :: node where
  "SKOS_scopeNote = URIRef ''http://www.w3.org/2004/02/skos/core#scopeNote''"
definition SKOS_historyNote :: node where
  "SKOS_historyNote = URIRef ''http://www.w3.org/2004/02/skos/core#historyNote''"
definition DCTERMS_created :: node where
  "DCTERMS_created = URIRef ''http://purl.org/dc/terms/created''"
definition DCTERMS_modified :: node where
  "DCTERMS_modified = URIRef ''http://purl.org/dc/terms/modified''"
definition OWL_deprecated :: node where
  "OWL_deprecated = URIRef ''http://www.w3.org/2002/07/owl#deprecated''"
definition XSD_date :: string where
  "XSD_date = ''http://www.w3.org/2001/XMLSchema#date''"
definition MADS_componentList :: node where
  "MADS_componentList = URIRef ''http://www.loc.gov/mads/rdf/v1#componentList''"

text \<open>\<^verbatim>\<open>WD[key]\<close>: the namespace string followed by the key.\<close>

definition WD :: "string \<Rightarrow> node" where
  "WD k = URIRef (''http://data.ub.uio.no/webdewey-terms#'' @ k)"

section \<open>The normalized record and the options\<close>

datatype py_error =
    InvalidRecordError string
  | IndexError
  | KeyError
  | TypeError
  | ValueError string

text \<open>
  Modelled from the spec: \<^verbatim>\<open>Constants\<close> (constants.py) is not among the sources; the
  spec gives the record type as one of Classification and Table, and line 69 compares it
  with \<^verbatim>\<open>Constants.TABLE_RECORD\<close>.
\<close>

datatype record_type = SCHEDULE_RECORD | TABLE_RECORD

text \<open>
  \<^verbatim>\<open>record.created.strftime('%F')\<close>: a date printed as year-month-day, four and two
  digits (Python's years run from 1 to 9999).
\<close>

record datetime =
  year :: nat
  month :: nat
  day :: nat

definition digit :: "nat \<Rightarrow> char" where
  "digit n = char_of (48 + n mod 10)"

definition strftime_F :: "datetime \<Rightarrow> string" where
  "strftime_F d =
     [digit (year d div 1000), digit (year d div 100), digit (year d div 10), digit (year d)]
     @ ''-'' @ [digit (month d div 10), digit (month d)]
     @ ''-'' @ [digit (day d div 10), digit (day d)]"

text \<open>
  The attributes of a \<^verbatim>\<open>ClassificationRecord\<close> that \<^verbatim>\<open>add_record_to_graph\<close> and
  \<^verbatim>\<open>process_record\<close> read. The class itself (record.py) is not among the sources, so
  its two methods used here are fields: \<open>get_uri\<close> is
  \<^verbatim>\<open>record.get_uri(collection='class', object=c)\<close> as a function of \<open>c\<close>, and
  \<open>is_public\<close> is the result of \<^verbatim>\<open>rec.is_public()\<close>. An index term is a dictionary
  read at the key \<^verbatim>\<open>'term'\<close>; \<^verbatim>\<open>webDeweyExtras\<close> is a dictionary iterated by
  \<^verbatim>\<open>items()\<close>, kept as the list of its items.
\<close>

record classification_record =
  uri :: "string option"
  scheme_uris :: "string list"
  is_top_concept :: bool
  created :: "datetime option"
  modified :: "datetime option"
  notation_field :: "string option"
  record_type :: record_type
  prefLabel :: "string option"
  lang :: "string option"
  altLabel :: "(string \<rightharpoonup> string) list"
  broader :: "string list"
  definition_field :: "string list"
  editorialNote :: "string list"
  scopeNote :: "string list"
  historyNote :: "string list"
  deprecated :: bool
  components :: "string list"
  webDeweyExtras :: "(string \<times> string) list"
  get_uri :: "string \<Rightarrow> string"
  is_public :: bool

text \<open>The options dictionary built in \<^verbatim>\<open>main\<close> (lines 206 to 213).\<close>

record options =
  base_uri :: "string option"
  scheme_uri :: "string option"
  table_scheme_uri :: "string option"
  include_indexterms :: bool
  include_notes :: bool
  include_components :: bool

section \<open>add\_record\_to\_graph (lines 42 to 124)\<close>

text \<open>
  Lines 80 and 81: one \<^verbatim>\<open>skos:altLabel\<close> per index term; \<^verbatim>\<open>label['term']\<close> raises
  \<^verbatim>\<open>KeyError\<close> when the key is missing.
\<close>

fun add_altLabels :: "node \<Rightarrow> string option \<Rightarrow> (string \<rightharpoonup> string) list \<Rightarrow> graph
    \<Rightarrow> py_error + graph" where
  "add_altLabels record_uri lg [] g = Inr g"
| "add_altLabels record_uri lg (label # labels) g =
     (case label ''term'' of
        None \<Rightarrow> Inl KeyError
      | Some t \<Rightarrow>
          add_altLabels record_uri lg labels
            (graph_add (record_uri, SKOS_altLabel, Literal (LStr t) lg None) g))"

text \<open>
  Lines 113 to 118: the loop over the components left after \<^verbatim>\<open>pop(0)\<close>. Each round
  creates a node \<open>b2\<close>, links it from \<open>b1\<close> and stores the component's identifier in
  it, as \<^verbatim>\<open>get_uri\<close> returned it. The loop returns the last node.
\<close>

fun component_loop :: "classification_record \<Rightarrow> string list \<Rightarrow> node \<Rightarrow> graph
    \<Rightarrow> node \<times> graph" where
  "component_loop r [] b1 g = (b1, g)"
| "component_loop r (component # rest) b1 g =
     (let component_uri = PlainStr (get_uri r component);
          (b2, g) = new_BNode g;
          g = graph_add (b1, RDF_rest, b2) g;
          g = graph_add (b2, RDF_first, component_uri) g
      in component_loop r rest b2 g)"

text \<open>
  Lines 106 to 120. \<^verbatim>\<open>record.components.pop(0)\<close> removes the first component from
  the record's own list, so the record is returned as well.
\<close>

definition add_components :: "node \<Rightarrow> classification_record \<Rightarrow> graph
    \<Rightarrow> graph \<times> classification_record" where
  "add_components record_uri r g =
     (case components r of
        [] \<Rightarrow> (g, r)
      | component # rest \<Rightarrow>
          (let r = r\<lparr>components := rest\<rparr>;
               component_uri = URIRef (get_uri r component);
               (b1, g) = new_BNode g;
               g = graph_add (record_uri, MADS_componentList, b1) g;
               g = graph_add (b1, RDF_first, component_uri) g;
               (b1, g) = component_loop r (components r) b1 g;
               g = graph_add (b1, RDF_rest, RDF_nil) g
           in (g, r)))"

text \<open>Lines 52 to 59: the type statement, then one membership statement per scheme.\<close>

definition add_type_and_schemes :: "node \<Rightarrow> classification_record \<Rightarrow> graph \<Rightarrow> graph" where
  "add_type_and_schemes record_uri r g =
     (let g = graph_add (record_uri, RDF_type, SKOS_Concept) g
      in fold (\<lambda>scheme_uri.
                 if is_top_concept r
                 then graph_add (record_uri, SKOS_topConceptOf, URIRef scheme_uri)
                 else graph_add (record_uri, SKOS_inScheme, URIRef scheme_uri))
              (scheme_uris r) g)"

text \<open>Lines 61 to 65.\<close>

definition add_dates :: "node \<Rightarrow> classification_record \<Rightarrow> graph \<Rightarrow> graph" where
  "add_dates record_uri r g =
     (let g = (case created r of
                 None \<Rightarrow> g
               | Some d \<Rightarrow> graph_add (record_uri, DCTERMS_created,
                              Literal (LStr (strftime_F d)) None (Some XSD_date)) g)
      in (case modified r of
            None \<Rightarrow> g
          | Some d \<Rightarrow> graph_add (record_uri, DCTERMS_modified,
                         Literal (LStr (strftime_F d)) None (Some XSD_date)) g))"

text \<open>
  Lines 67 to 72. \<^verbatim>\<open>if record.notation:\<close> is false for \<^verbatim>\<open>None\<close> and for the empty
  string.
\<close>

definition add_notation :: "node \<Rightarrow> classification_record \<Rightarrow> graph \<Rightarrow> graph" where
  "add_notation record_uri r g =
     (case notation_field r of
        None \<Rightarrow> g
      | Some n \<Rightarrow>
          if n = [] then g
          else if record_type r = TABLE_RECORD
          then graph_add (record_uri, SKOS_notation, Literal (LStr (''T'' @ n)) None None) g
          else graph_add (record_uri, SKOS_notation, Literal (LStr n) None None) g)"

text \<open>Lines 74 to 76, with the same truth test.\<close>

definition add_prefLabel :: "node \<Rightarrow> classification_record \<Rightarrow> graph \<Rightarrow> graph" where
  "add_prefLabel record_uri r g =
     (case prefLabel r of
        None \<Rightarrow> g
      | Some l \<Rightarrow>
          if l = [] then g
          else graph_add (record_uri, SKOS_prefLabel, Literal (LStr l) (lang r) None) g)"

text \<open>Lines 83 to 85.\<close>

definition add_broader :: "node \<Rightarrow> classification_record \<Rightarrow> graph \<Rightarrow> graph" where
  "add_broader record_uri r g =
     fold (\<lambda>parent_uri. graph_add (record_uri, SKOS_broader, URIRef parent_uri)) (broader r) g"

text \<open>Lines 89 to 99: the four kinds of notes, in this order.\<close>

definition add_notes :: "node \<Rightarrow> classification_record \<Rightarrow> graph \<Rightarrow> graph" where
  "add_notes record_uri r g =
     (let g = fold (\<lambda>note. graph_add (record_uri, SKOS_definition,
                       Literal (LStr note) (lang r) None)) (definition_field r) g;
          g = fold (\<lambda>note. graph_add (record_uri, SKOS_editorialNote,
                       Literal (LStr note) (lang r) None)) (editorialNote r) g;
          g = fold (\<lambda>note. graph_add (record_uri, SKOS_scopeNote,
                       Literal (LStr note) (lang r) None)) (scopeNote r) g;
          g = fold (\<lambda>note. graph_add (record_uri, SKOS_historyNote,
                       Literal (LStr note) (lang r) None)) (historyNote r) g
      in g)"

text \<open>Lines 123 and 124.\<close>

definition add_webDeweyExtras :: "node \<Rightarrow> classification_record \<Rightarrow> graph \<Rightarrow> graph" where
  "add_webDeweyExtras record_uri r g =
     fold (\<lambda>(k, v). graph_add (record_uri, WD k, Literal (LStr v) (lang r) None))
       (webDeweyExtras r) g"

text \<open>
  The whole function, block after block in the order of the source.
  \<^verbatim>\<open>URIRef(record.uri)\<close> with \<^verbatim>\<open>record.uri\<close> being \<^verbatim>\<open>None\<close> is a \<^verbatim>\<open>TypeError\<close> in
  rdflib. The result is the graph and the record as the call leaves them.
\<close>

definition add_record_to_graph :: "graph \<Rightarrow> classification_record \<Rightarrow> options
    \<Rightarrow> py_error + graph \<times> classification_record" where
  "add_record_to_graph g r opts =
     (case uri r of
        None \<Rightarrow> Inl TypeError
      | Some u \<Rightarrow>
         (let record_uri = URIRef u;
              g = add_type_and_schemes record_uri r g;
              g = add_dates record_uri r g;
              g = add_notation record_uri r g;
              g = add_prefLabel record_uri r g
          in case (if include_indexterms opts
                   then add_altLabels record_uri (lang r) (altLabel r) g
                   else Inr g) of
               Inl e \<Rightarrow> Inl e
             | Inr g \<Rightarrow>
                (let g = add_broader record_uri r g;
                     g = (if include_notes opts then add_notes record_uri r g else g);
                     g = (if deprecated r
                          then graph_add (record_uri, OWL_deprecated,
                                 Literal (LBool True) None None) g
                          else g);
                     (g, r) = (if include_components opts \<and> length (components r) \<noteq> 0
                               then add_components record_uri r g
                               else (g, r));
                     g = add_webDeweyExtras record_uri r g
                 in Inr (g, r))))"

section \<open>Reading a list back from the graph\<close>



definition known :: "nat \<Rightarrow> node \<Rightarrow> bool" where
  "known k n = (case n of BNode j \<Rightarrow> j < k | _ \<Rightarrow> True)"

definition bnodes_fresh :: "graph \<Rightarrow> bool" where
  "bnodes_fresh g = list_all (\<lambda>t. known (next_bnode g) (fst t)) (triples g)"

section \<open>process\_record (lines 127 to 144)\<close>

text \<open>
  Log records as the logging calls build them: level, format string, arguments. The
  throughput printed by \<^verbatim>\<open>get_records\<close> is a wall-clock rate and stays symbolic.
\<close>

datatype level = DEBUG | INFO | WARNING

datatype log_arg = AStr string | ANat nat | ARate

datatype log_record = Log level string "log_arg list"

text \<open>
  The parts of the run that are not in \<^verbatim>\<open>mc2skos.py\<close>, as parameters over the type
  \<open>'x\<close> of raw record nodes: \<open>leader_text\<close> is \<^verbatim>\<open>Element(rec).text('mx:leader')\<close>
  (element.py), \<open>ClassificationRecord\<close> is the constructor of record.py, which may
  raise, \<open>from_rdf\<close> is \<^verbatim>\<open>rdflib_jsonld.serializer.from_rdf\<close> and \<open>jskos_context\<close> is
  the bundled context document.
\<close>

datatype json =
    JNull
  | JBool bool
  | JNum int
  | JStr string
  | JArr "json list"
  | JObj "(string \<times> json) list"

record 'x collaborators =
  leader_text :: "'x \<Rightarrow> string option"
  ClassificationRecord :: "'x \<Rightarrow> options \<Rightarrow> py_error + classification_record"
  from_rdf :: "triple list \<Rightarrow> json \<Rightarrow> json"
  jskos_context :: json

text \<open>
  The result is the graph after the call and the log records the call emitted.
  \<^verbatim>\<open>leader[6]\<close> on a string of fewer than seven characters raises \<^verbatim>\<open>IndexError\<close>.
\<close>

definition process_record :: "'x collaborators \<Rightarrow> graph \<Rightarrow> 'x \<Rightarrow> options
    \<Rightarrow> py_error + graph \<times> log_record list" where
  "process_record c g rec opts =
     (case leader_text c rec of
        None \<Rightarrow> Inl (InvalidRecordError ''Record does not have a leader'')
      | Some leader \<Rightarrow>
          if length leader \<le> 6 then Inl IndexError
          else if leader ! 6 = CHR ''w'' then
            (case ClassificationRecord c rec opts of
               Inl e \<Rightarrow> Inl e
             | Inr r \<Rightarrow>
                 (case uri r of
                    None \<Rightarrow>
                      Inr (g, [Log DEBUG
                        ''Ignoring record because: No known concept scheme detected, and no manual URI template given''
                        []])
                  | Some u \<Rightarrow>
                      if is_public r then
                        (case add_record_to_graph g r opts of
                           Inl e \<Rightarrow> Inl e
                         | Inr (g', r') \<Rightarrow> Inr (g', []))
                      else Inr (g, [])))
          else Inl (InvalidRecordError ''Record is not a Marc21 Classification record''))"

section \<open>The loop over the records (lines 147 to 158 and 215 to 222)\<close>

text \<open>
  \<^verbatim>\<open>get_records\<close> yields the record nodes of the document one by one; the document is
  given here as the list of these nodes. After each record the generator counts it and
  every 500 records logs its progress.
\<close>

definition progress :: "nat \<Rightarrow> log_record list" where
  "progress n =
     (if n mod 500 = 0 then [Log INFO ''Read %d records (%.f recs/sec)'' [ANat n, ARate]]
      else [])"

text \<open>
  Only \<^verbatim>\<open>InvalidRecordError\<close> is caught (line 220); any other exception leaves the loop
  and ends the run.
\<close>

fun record_loop :: "'x collaborators \<Rightarrow> options \<Rightarrow> nat \<Rightarrow> 'x list \<Rightarrow> graph
    \<Rightarrow> log_record list \<Rightarrow> py_error + graph \<times> log_record list" where
  "record_loop c opts n [] g lg = Inr (g, lg)"
| "record_loop c opts n (rec # rest) g lg =
     (let n = n + 1 in
      case process_record c g rec opts of
        Inl (InvalidRecordError e) \<Rightarrow>
          record_loop c opts n rest g
            (lg @ [Log DEBUG ''Ignoring record %d: %s'' [ANat n, AStr e]] @ progress n)
      | Inl e \<Rightarrow> Inl e
      | Inr (g', out) \<Rightarrow> record_loop c opts n rest g' (lg @ out @ progress n))"

section \<open>Output (lines 224 to 258)\<close>

subsection \<open>The sorters of the Turtle serializer (lines 237 to 240)\<close>

text \<open>
  The two patterns use literal characters and capturing groups of one or more characters
  of a class; a class is given by its members. Matching is Python's: a group takes as
  many characters as it can and gives back one at a time, and \<^verbatim>\<open>search\<close> tries the
  start positions from the left. The result is the list of the groups.
\<close>

datatype rx = Lit char | Group string

fun first_some :: "(nat \<Rightarrow> 'a option) \<Rightarrow> nat \<Rightarrow> 'a option" where
  "first_some f 0 = None"
| "first_some f (Suc k) = (case f (Suc k) of Some r \<Rightarrow> Some r | None \<Rightarrow> first_some f k)"

fun match_here :: "rx list \<Rightarrow> string \<Rightarrow> string list option" where
  "match_here [] s = Some []"
| "match_here (Lit c # p) s =
     (case s of [] \<Rightarrow> None | x # xs \<Rightarrow> if x = c then match_here p xs else None)"
| "match_here (Group cls # p) s =
     first_some (\<lambda>k. map_option ((#) (take k s)) (match_here p (drop k s)))
       (length (takeWhile (\<lambda>x. x \<in> set cls) s))"

fun search :: "rx list \<Rightarrow> string \<Rightarrow> string list option" where
  "search p [] = match_here p []"
| "search p (x # xs) =
     (case match_here p (x # xs) of Some gs \<Rightarrow> Some gs | None \<Rightarrow> search p xs)"

text \<open>\<^verbatim>\<open>'/([0-9A-Z\-]+)\-\-([0-9.\-;:]+)/e'\<close> and \<^verbatim>\<open>'/([0-9.\-;:]+)/e'\<close>.\<close>

definition table_pattern :: "rx list" where
  "table_pattern =
     [Lit CHR ''/'', Group ''0123456789ABCDEFGHIJKLMNOPQRSTUVWXYZ-'', Lit CHR ''-'',
      Lit CHR ''-'', Group ''0123456789.-;:'', Lit CHR ''/'', Lit CHR ''e'']"

definition schedule_pattern :: "rx list" where
  "schedule_pattern = [Lit CHR ''/'', Group ''0123456789.-;:'', Lit CHR ''/'', Lit CHR ''e'']"

text \<open>
  \<^verbatim>\<open>lambda x: 'T{}--{}'.format(x[0], x[1])\<close> and \<^verbatim>\<open>lambda x: 'A' + x[0]\<close>, on the
  tuple of groups.
\<close>

fun table_key :: "string list \<Rightarrow> py_error + string" where
  "table_key (x0 # x1 # _) = Inr (''T'' @ x0 @ ''--'' @ x1)"
| "table_key _ = Inl IndexError"

fun schedule_key :: "string list \<Rightarrow> py_error + string" where
  "schedule_key (x0 # _) = Inr (''A'' @ x0)"
| "schedule_key _ = Inl IndexError"

definition sorters :: "(rx list \<times> (string list \<Rightarrow> py_error + string)) list" where
  "sorters = [(table_pattern, table_key), (schedule_pattern, schedule_key)]"

text \<open>
  The serializer itself (package otsrdflib) is not part of the repository. It orders the
  subjects by a key: the sorters are tried in list order on the subject's IRI, and the
  function of the first pattern found there gets the groups of the match.
\<close>

fun subject_key :: "(rx list \<times> (string list \<Rightarrow> py_error + string)) list \<Rightarrow> string
    \<Rightarrow> (py_error + string) option" where
  "subject_key [] s = None"
| "subject_key ((p, f) # rest) s =
     (case search p s of Some gs \<Rightarrow> Some (f gs) | None \<Rightarrow> subject_key rest s)"

text \<open>
  For stating what a match means: the number of groups of a pattern, and the string a
  pattern stands for once its groups are given.
\<close>

fun n_groups :: "rx list \<Rightarrow> nat" where
  "n_groups [] = 0"
| "n_groups (Lit c # p) = n_groups p"
| "n_groups (Group cls # p) = Suc (n_groups p)"

fun render :: "rx list \<Rightarrow> string list \<Rightarrow> string" where
  "render [] gs = []"
| "render (Lit c # p) gs = c # render p gs"
| "render (Group cls # p) [] = []"
| "render (Group cls # p) (g # gs) = g @ render p gs"

subsection \<open>JSON values as Python handles them\<close>

fun dict_set :: "(string \<times> json) list \<Rightarrow> string \<Rightarrow> json \<Rightarrow> (string \<times> json) list" where
  "dict_set [] k v = [(k, v)]"
| "dict_set ((k', v') # kvs) k v =
     (if k' = k then (k, v) # kvs else (k', v') # dict_set kvs k v)"

text \<open>\<^verbatim>\<open>d[k] = v\<close>: item assignment with a string key works on a dictionary only.\<close>

fun setitem :: "json \<Rightarrow> string \<Rightarrow> json \<Rightarrow> py_error + json" where
  "setitem (JObj kvs) k v = Inr (JObj (dict_set kvs k v))"
| "setitem _ k v = Inl TypeError"

fun getitem :: "json \<Rightarrow> string \<Rightarrow> py_error + json" where
  "getitem (JObj kvs) k = (case map_of kvs k of None \<Rightarrow> Inl KeyError | Some v \<Rightarrow> Inr v)"
| "getitem _ k = Inl TypeError"

fun is_substring :: "string \<Rightarrow> string \<Rightarrow> bool" where
  "is_substring sub [] = (sub = [])"
| "is_substring sub (x # xs) = (take (length sub) (x # xs) = sub \<or> is_substring sub xs)"

text \<open>\<^verbatim>\<open>k in d\<close>: a key of a dictionary, an element of a list, a substring of a string.\<close>

fun py_in :: "string \<Rightarrow> json \<Rightarrow> py_error + bool" where
  "py_in k (JObj kvs) = Inr (k \<in> set (map fst kvs))"
| "py_in k (JArr xs) = Inr (JStr k \<in> set xs)"
| "py_in k (JStr s) = Inr (is_substring k s)"
| "py_in k _ = Inl TypeError"

text \<open>\<^verbatim>\<open>for record in v\<close>: the elements of a list, the keys of a dictionary, the
  characters of a string.\<close>

fun py_iter :: "json \<Rightarrow> py_error + json list" where
  "py_iter (JArr xs) = Inr xs"
| "py_iter (JObj kvs) = Inr (map (\<lambda>kv. JStr (fst kv)) kvs)"
| "py_iter (JStr s) = Inr (map (\<lambda>x. JStr [x]) s)"
| "py_iter _ = Inl TypeError"

subsection \<open>Writing\<close>

text \<open>
  What is handed to the output file: the Turtle serialization of the graph (the
  serializer's work), the result of \<^verbatim>\<open>json.dumps\<close> with its \<^verbatim>\<open>sort_keys\<close> and
  \<^verbatim>\<open>indent\<close> arguments, or a plain string.
\<close>

datatype out_item = SerializeTurtle "triple list" | Dumps json bool "nat option" | Text string

definition jskos_context_uri :: string where
  "jskos_context_uri = ''https://gbv.github.io/jskos/context.json''"

text \<open>Lines 252 to 255: one line per record. An exception ends the run.\<close>

fun ndjson_lines :: "json list \<Rightarrow> py_error + out_item list" where
  "ndjson_lines [] = Inr []"
| "ndjson_lines (rec # rest) =
     (case setitem rec ''@context'' (JStr jskos_context_uri) of
        Inl e \<Rightarrow> Inl e
      | Inr rec' \<Rightarrow>
          (case ndjson_lines rest of
             Inl e \<Rightarrow> Inl e
           | Inr ws \<Rightarrow> Inr (Dumps rec' True None # Text [CHR 0x0A] # ws)))"

text \<open>Line 252: \<^verbatim>\<open>jskos['@graph'] if '@graph' in jskos else [jskos]\<close>, then iterated.\<close>

definition ndjson_records :: "json \<Rightarrow> py_error + json list" where
  "ndjson_records jskos =
     (case py_in ''@graph'' jskos of
        Inl e \<Rightarrow> Inl e
      | Inr True \<Rightarrow> (case getitem jskos ''@graph'' of Inl e \<Rightarrow> Inl e | Inr v \<Rightarrow> py_iter v)
      | Inr False \<Rightarrow> Inr [jskos])"

text \<open>Lines 233 to 255, for a format that passed the check of line 203.\<close>

definition serialize :: "'x collaborators \<Rightarrow> string \<Rightarrow> graph \<Rightarrow> py_error + out_item list" where
  "serialize c fmt g =
     (if fmt = ''turtle'' then Inr [SerializeTurtle (triples g)]
      else if fmt \<in> set [''jskos'', ''ndjson''] then
        (let jskos = from_rdf c (triples g) (jskos_context c) in
         if fmt = ''jskos'' then
           (case setitem jskos ''@context'' (JStr jskos_context_uri) of
              Inl e \<Rightarrow> Inl e
            | Inr jskos \<Rightarrow> Inr [Dumps jskos True (Some 2)])
         else
           (case ndjson_records jskos of
              Inl e \<Rightarrow> Inl e
            | Inr records \<Rightarrow> ndjson_lines records))
      else Inr [])"

section \<open>main (lines 164 to 258)\<close>

text \<open>
  The parsed command line. \<^verbatim>\<open>outfile\<close> is optional; \<^verbatim>\<open>outformat\<close> is \<^verbatim>\<open>None\<close> when
  the option is given without a value.
\<close>

record args =
  infile :: string
  outfile :: "string option"
  verbose :: bool
  outformat :: "string option"
  args_base_uri :: "string option"
  args_scheme_uri :: "string option"
  args_table_scheme_uri :: "string option"
  args_indexterms :: bool
  args_notes :: bool
  args_components :: bool

text \<open>
  What a run leaves behind: the log records, the level of the console handler, the file
  opened for writing (\<open>None\<close>: none was opened, output goes to standard output) and what
  was written.
\<close>

record outcome =
  logs :: "log_record list"
  handler_level :: level
  opened :: "string option"
  written :: "out_item list"

definition main :: "'x collaborators \<Rightarrow> args \<Rightarrow> 'x list \<Rightarrow> py_error + outcome" where
  "main c a records =
     (let g = \<lparr>triples = [], next_bnode = 0\<rparr>;
          console_level = (if verbose a then DEBUG else INFO);
          in_file = infile a
      in case outformat a of
           None \<Rightarrow> Inl (ValueError ''output format not supported'')
         | Some fmt \<Rightarrow>
             if fmt \<notin> set [''turtle'', ''jskos'', ''ndjson'']
             then Inl (ValueError ''output format not supported'')
             else
               (let opts = \<lparr>base_uri = args_base_uri a, scheme_uri = args_scheme_uri a,
                            table_scheme_uri = args_table_scheme_uri a,
                            include_indexterms = args_indexterms a, include_notes = args_notes a,
                            include_components = args_components a\<rparr>
                in case record_loop c opts 0 records g [Log INFO ''Parsing: %s'' [AStr in_file]] of
                     Inl e \<Rightarrow> Inl e
                   | Inr (g, lg) \<Rightarrow>
                       if triples g = [] then
                         Inr \<lparr>logs = lg @ [Log WARNING ''RDF result is empty!'' []],
                              handler_level = console_level, opened = None, written = []\<rparr>
                       else
                         (let out_file =
                                (case outfile a of
                                   None \<Rightarrow> None
                                 | Some f \<Rightarrow> if f \<noteq> [] \<and> f \<noteq> ''-'' then Some f else None)
                          in case serialize c fmt g of
                               Inl e \<Rightarrow> Inl e
                             | Inr ws \<Rightarrow>
                                 Inr \<lparr>logs = lg @
                                        (case out_file of
                                           None \<Rightarrow> []
                                         | Some f \<Rightarrow>
                                             [Log INFO (''Wrote '' @ fmt @ '': '' @ f) []]),
                                      handler_level = console_level, opened = out_file,
                                      written = ws\<rparr>)))"

section \<open>Sample inputs\<close>

text \<open>
  Concrete inputs at which the theorems below are instantiated: a schedule record for
  class 512 with three components, collaborators whose raw record is its leader string
  and whose normalizer returns a fixed record, and a command line.
\<close>

definition algebra_record :: classification_record where
  "algebra_record =
     \<lparr>uri = Some ''http://dewey.info/class/512/e23/'',
      scheme_uris = [''http://dewey.info/scheme/edition/e23/''],
      is_top_concept = False, created = None, modified = None,
      notation_field = Some ''512'', record_type = SCHEDULE_RECORD,
      prefLabel = Some ''Algebra'', lang = Some ''en'', altLabel = [], broader = [],
      definition_field = [], editorialNote = [], scopeNote = [], historyNote = [],
      deprecated = False, components = [''X'', ''Y'', ''Z''], webDeweyExtras = [],
      get_uri = (\<lambda>c. ''http://dewey.info/class/'' @ c @ ''/e23/''), is_public = True\<rparr>"

definition fixed_collaborators :: "classification_record \<Rightarrow> string collaborators" where
  "fixed_collaborators r =
     \<lparr>leader_text = (\<lambda>x. if x = [] then None else Some x),
      ClassificationRecord = (\<lambda>x opts. Inr r),
      from_rdf = (\<lambda>ts ctx. JObj []),
      jskos_context = JNull\<rparr>"

definition no_options :: options where
  "no_options = \<lparr>base_uri = None, scheme_uri = None, table_scheme_uri = None,
      include_indexterms = False, include_notes = False, include_components = False\<rparr>"

definition empty_graph :: graph where
  "empty_graph = \<lparr>triples = [], next_bnode = 0\<rparr>"

definition turtle_args :: args where
  "turtle_args = \<lparr>infile = ''in.xml'', outfile = Some ''out.ttl'', verbose = False,
      outformat = Some ''turtle'', args_base_uri = None, args_scheme_uri = None,
      args_table_scheme_uri = None, args_indexterms = False, args_notes = False,
      args_components = False\<rparr>"






section \<open>What the graph builder appends\<close>


lemma triples_graph_add [simp]: "triples (graph_add t g) = triples g @ [t]"
  by (simp add: graph_add_def)

lemma next_bnode_graph_add [simp]: "next_bnode (graph_add t g) = next_bnode g"
  by (simp add: graph_add_def)

lemma graph_add_if: "(if c then graph_add a else graph_add b) = graph_add (if c then a else b)"
  by simp

lemma triples_fold_add [simp]:
  "triples (fold (\<lambda>x. graph_add (f x)) xs g) = triples g @ map f xs"
  by (induction xs arbitrary: g) simp_all

lemma next_bnode_fold_add [simp]:
  "next_bnode (fold (\<lambda>x. graph_add (f x)) xs g) = next_bnode g"
  by (induction xs arbitrary: g) simp_all

lemma add_altLabels_Inr:
  "add_altLabels u lg ls g = Inr g' \<Longrightarrow>
     triples g' = triples g @ map (\<lambda>l. (u, SKOS_altLabel, Literal (LStr (the (l ''term''))) lg None)) ls
     \<and> next_bnode g' = next_bnode g"
  by (induction ls arbitrary: g) (auto split: option.splits)

lemma snd_new_BNode [simp]:
  "triples (snd (new_BNode g)) = triples g" "next_bnode (snd (new_BNode g)) = Suc (next_bnode g)"
  "fst (new_BNode g) = BNode (next_bnode g)"
  by (simp_all add: new_BNode_def)

lemma component_loop_next_bnode:
  "next_bnode (snd (component_loop r cs b1 g)) = next_bnode g + length cs"
  by (induction cs arbitrary: b1 g) (simp_all add: Let_def split_beta)

lemma component_loop_last:
  "fst (component_loop r cs b1 g) = last (b1 # map BNode [next_bnode g ..< next_bnode g + length cs])"
proof (induction cs arbitrary: b1 g)
  case Nil show ?case by simp
next
  case (Cons c cs)
  have "[next_bnode g ..< Suc (next_bnode g + length cs)]
        = next_bnode g # [Suc (next_bnode g) ..< Suc (next_bnode g + length cs)]"
    by (rule upt_conv_Cons) simp
  then show ?case using Cons.IH by (simp add: Let_def split_beta del: upt_Suc)
qed





lemma component_loop_frame:
  "triples (snd (component_loop r cs b1 g))
   = triples g @ triples (snd (component_loop r cs b1 \<lparr>triples = [], next_bnode = next_bnode g\<rparr>))"
proof (induction cs arbitrary: b1 g)
  case Nil show ?case by simp
next
  case (Cons c cs)
  show ?case
    apply (simp add: Let_def split_beta)
    apply (subst Cons.IH)
    apply (subst (2) Cons.IH)
    apply (simp add: new_BNode_def)
    done
qed


lemma last_bnodes: "last (BNode k # map BNode [Suc k ..< Suc (k + m)]) = BNode (k + m)"
  by (induction m) simp_all


lemma add_components_frame:
  "triples (fst (add_components u r g))
   = triples g @ triples (fst (add_components u r \<lparr>triples = [], next_bnode = next_bnode g\<rparr>))"
proof (cases "components r")
  case Nil then show ?thesis by (simp add: add_components_def)
next
  case (Cons c rest)
  show ?thesis
    apply (simp add: add_components_def Cons Let_def split_beta component_loop_last)
    apply (subst component_loop_frame)
    apply (subst (2) component_loop_frame)
    apply (simp add: new_BNode_def graph_add_def)
    done
qed

lemma add_components_record:
  "snd (add_components u r g) = r\<lparr>components := tl (components r)\<rparr>"
  by (cases "components r") (simp_all add: add_components_def Let_def split_beta)

lemma add_components_next_bnode:
  "next_bnode (fst (add_components u r g)) = next_bnode g + length (components r)"
  by (cases "components r")
     (simp_all add: add_components_def Let_def split_beta component_loop_next_bnode)






lemma fold_case_prod_add:
  "fold (\<lambda>(k, v). graph_add (f k v)) xs g = fold (\<lambda>x. graph_add (f (fst x) (snd x))) xs g"
  by (simp add: split_def)


lemma add_type_and_schemes_triples:
  "triples (add_type_and_schemes u r g) = triples g
     @ (u, RDF_type, SKOS_Concept)
     # map (\<lambda>s. (u, if is_top_concept r then SKOS_topConceptOf else SKOS_inScheme, URIRef s))
         (scheme_uris r)"
  and add_type_and_schemes_next_bnode:
  "next_bnode (add_type_and_schemes u r g) = next_bnode g"
  by (simp_all add: add_type_and_schemes_def graph_add_if)

lemma add_dates_triples:
  "triples (add_dates u r g) = triples g
     @ (case created r of None \<Rightarrow> []
        | Some d \<Rightarrow> [(u, DCTERMS_created, Literal (LStr (strftime_F d)) None (Some XSD_date))])
     @ (case modified r of None \<Rightarrow> []
        | Some d \<Rightarrow> [(u, DCTERMS_modified, Literal (LStr (strftime_F d)) None (Some XSD_date))])"
  and add_dates_next_bnode: "next_bnode (add_dates u r g) = next_bnode g"
  by (simp_all add: add_dates_def split: option.splits)

lemma add_notation_triples:
  "triples (add_notation u r g) = triples g
     @ (case notation_field r of None \<Rightarrow> []
        | Some n \<Rightarrow> if n = [] then []
            else [(u, SKOS_notation,
                   Literal (LStr (if record_type r = TABLE_RECORD then ''T'' @ n else n)) None None)])"
  and add_notation_next_bnode: "next_bnode (add_notation u r g) = next_bnode g"
  by (simp_all add: add_notation_def split: option.splits)

lemma add_prefLabel_triples:
  "triples (add_prefLabel u r g) = triples g
     @ (case prefLabel r of None \<Rightarrow> []
        | Some l \<Rightarrow> if l = [] then [] else [(u, SKOS_prefLabel, Literal (LStr l) (lang r) None)])"
  and add_prefLabel_next_bnode: "next_bnode (add_prefLabel u r g) = next_bnode g"
  by (simp_all add: add_prefLabel_def split: option.splits)

lemma add_broader_triples:
  "triples (add_broader u r g) = triples g @ map (\<lambda>p. (u, SKOS_broader, URIRef p)) (broader r)"
  and add_broader_next_bnode: "next_bnode (add_broader u r g) = next_bnode g"
  by (simp_all add: add_broader_def)

lemma add_notes_triples:
  "triples (add_notes u r g) = triples g
     @ map (\<lambda>n. (u, SKOS_definition, Literal (LStr n) (lang r) None)) (definition_field r)
     @ map (\<lambda>n. (u, SKOS_editorialNote, Literal (LStr n) (lang r) None)) (editorialNote r)
     @ map (\<lambda>n. (u, SKOS_scopeNote, Literal (LStr n) (lang r) None)) (scopeNote r)
     @ map (\<lambda>n. (u, SKOS_historyNote, Literal (LStr n) (lang r) None)) (historyNote r)"
  and add_notes_next_bnode: "next_bnode (add_notes u r g) = next_bnode g"
  by (simp_all add: add_notes_def)

lemma add_webDeweyExtras_triples:
  "triples (add_webDeweyExtras u r g) = triples g
     @ map (\<lambda>(k, v). (u, WD k, Literal (LStr v) (lang r) None)) (webDeweyExtras r)"
  and add_webDeweyExtras_next_bnode: "next_bnode (add_webDeweyExtras u r g) = next_bnode g"
  by (simp_all add: add_webDeweyExtras_def split_def)

lemmas block_simps =
  add_type_and_schemes_triples add_type_and_schemes_next_bnode
  add_dates_triples add_dates_next_bnode add_notation_triples add_notation_next_bnode
  add_prefLabel_triples add_prefLabel_next_bnode add_broader_triples add_broader_next_bnode
  add_notes_triples add_notes_next_bnode add_webDeweyExtras_triples
  add_webDeweyExtras_next_bnode

text \<open>What one call appends, what it does to the node counter and to the record.\<close>

lemma add_record_to_graph_Inr:
  assumes run: "add_record_to_graph g r opts = Inr (g', r')" and u: "uri r = Some u"
  shows "triples g' = triples g
     @ (URIRef u, RDF_type, SKOS_Concept)
     # map (\<lambda>s. (URIRef u, if is_top_concept r then SKOS_topConceptOf else SKOS_inScheme,
               URIRef s)) (scheme_uris r)
     @ (case created r of None \<Rightarrow> []
        | Some d \<Rightarrow> [(URIRef u, DCTERMS_created, Literal (LStr (strftime_F d)) None (Some XSD_date))])
     @ (case modified r of None \<Rightarrow> []
        | Some d \<Rightarrow> [(URIRef u, DCTERMS_modified, Literal (LStr (strftime_F d)) None (Some XSD_date))])
     @ (case notation_field r of None \<Rightarrow> []
        | Some n \<Rightarrow> if n = [] then []
            else [(URIRef u, SKOS_notation,
                   Literal (LStr (if record_type r = TABLE_RECORD then ''T'' @ n else n)) None None)])
     @ (case prefLabel r of None \<Rightarrow> []
        | Some l \<Rightarrow> if l = [] then []
            else [(URIRef u, SKOS_prefLabel, Literal (LStr l) (lang r) None)])
     @ (if include_indexterms opts
        then map (\<lambda>l. (URIRef u, SKOS_altLabel, Literal (LStr (the (l ''term''))) (lang r) None))
               (altLabel r)
        else [])
     @ map (\<lambda>p. (URIRef u, SKOS_broader, URIRef p)) (broader r)
     @ (if include_notes opts
        then map (\<lambda>n. (URIRef u, SKOS_definition, Literal (LStr n) (lang r) None)) (definition_field r)
           @ map (\<lambda>n. (URIRef u, SKOS_editorialNote, Literal (LStr n) (lang r) None)) (editorialNote r)
           @ map (\<lambda>n. (URIRef u, SKOS_scopeNote, Literal (LStr n) (lang r) None)) (scopeNote r)
           @ map (\<lambda>n. (URIRef u, SKOS_historyNote, Literal (LStr n) (lang r) None)) (historyNote r)
        else [])
     @ (if deprecated r then [(URIRef u, OWL_deprecated, Literal (LBool True) None None)] else [])
     @ (if include_components opts \<and> components r \<noteq> []
        then triples (fst (add_components (URIRef u) r \<lparr>triples = [], next_bnode = next_bnode g\<rparr>))
        else [])
     @ map (\<lambda>(k, v). (URIRef u, WD k, Literal (LStr v) (lang r) None)) (webDeweyExtras r)"
  and "next_bnode g' = next_bnode g + (if include_components opts then length (components r) else 0)"
  and "r' = (if include_components opts \<and> components r \<noteq> []
             then r\<lparr>components := tl (components r)\<rparr> else r)"
proof -
  define g6 where "g6 = add_prefLabel (URIRef u) r (add_notation (URIRef u) r
                    (add_dates (URIRef u) r (add_type_and_schemes (URIRef u) r g)))"
  define a7 where "a7 = (if include_indexterms opts
                   then add_altLabels (URIRef u) (lang r) (altLabel r) g6 else Inr g6)"
  define g10f where "g10f = (\<lambda>g7. let g = add_broader (URIRef u) r g7;
                     g = (if include_notes opts then add_notes (URIRef u) r g else g)
                 in if deprecated r
                    then graph_add (URIRef u, OWL_deprecated, Literal (LBool True) None None) g
                    else g)"
  define p11f where "p11f = (\<lambda>g7. if include_components opts \<and> length (components r) \<noteq> 0
                     then add_components (URIRef u) r (g10f g7) else (g10f g7, r))"
  have unfolded: "add_record_to_graph g r opts =
      (case a7 of Inl e \<Rightarrow> Inl e
       | Inr g7 \<Rightarrow> Inr (add_webDeweyExtras (URIRef u) (snd (p11f g7)) (fst (p11f g7)),
                        snd (p11f g7)))"
    unfolding add_record_to_graph_def a7_def g6_def p11f_def g10f_def
    by (simp add: u Let_def split_beta split: sum.splits)
  from run obtain g7 where a7: "a7 = Inr g7"
    unfolding unfolded by (cases a7) simp_all
  define g10 where "g10 = g10f g7"
  define p11 where "p11 = p11f g7"
  have res: "g' = add_webDeweyExtras (URIRef u) (snd p11) (fst p11)" "r' = snd p11"
    using run unfolding unfolded a7 p11_def by auto
  have p11_def': "p11 = (if include_components opts \<and> length (components r) \<noteq> 0
                     then add_components (URIRef u) r g10 else (g10, r))"
    by (simp add: p11_def p11f_def g10_def)
  have g10_def': "g10 = (let g = add_broader (URIRef u) r g7;
                     g = (if include_notes opts then add_notes (URIRef u) r g else g)
                 in if deprecated r
                    then graph_add (URIRef u, OWL_deprecated, Literal (LBool True) None None) g
                    else g)"
    by (simp add: g10_def g10f_def)
  have r': "snd p11 = (if include_components opts \<and> components r \<noteq> []
             then r\<lparr>components := tl (components r)\<rparr> else r)"
    by (simp add: p11_def' add_components_record)
  have t7: "triples g7 = triples g6 @ (if include_indexterms opts
        then map (\<lambda>l. (URIRef u, SKOS_altLabel, Literal (LStr (the (l ''term''))) (lang r) None))
               (altLabel r) else [])"
    and n7: "next_bnode g7 = next_bnode g6"
    using a7 add_altLabels_Inr [of "URIRef u" "lang r" "altLabel r" g6 g7]
    by (auto simp: a7_def split: if_splits)
  have n10: "next_bnode g10 = next_bnode g"
    by (simp add: g10_def' Let_def n7 g6_def block_simps)
  have t11: "triples (fst p11) = triples g10 @ (if include_components opts \<and> components r \<noteq> []
        then triples (fst (add_components (URIRef u) r \<lparr>triples = [], next_bnode = next_bnode g\<rparr>))
        else [])"
    using add_components_frame [of "URIRef u" r g10] by (simp add: p11_def' n10)
  have n11: "next_bnode (fst p11)
      = next_bnode g + (if include_components opts then length (components r) else 0)"
    by (simp add: p11_def' n10 add_components_next_bnode)
  have lang': "lang (snd p11) = lang r" "webDeweyExtras (snd p11) = webDeweyExtras r"
    by (simp_all add: r')
  show "r' = (if include_components opts \<and> components r \<noteq> []
             then r\<lparr>components := tl (components r)\<rparr> else r)"
    using res r' by simp
  show "next_bnode g' = next_bnode g + (if include_components opts then length (components r) else 0)"
    by (simp only: res add_webDeweyExtras_next_bnode n11)
  have t10: "triples g10 = triples g7 @ map (\<lambda>p. (URIRef u, SKOS_broader, URIRef p)) (broader r)
     @ (if include_notes opts
        then map (\<lambda>n. (URIRef u, SKOS_definition, Literal (LStr n) (lang r) None)) (definition_field r)
           @ map (\<lambda>n. (URIRef u, SKOS_editorialNote, Literal (LStr n) (lang r) None)) (editorialNote r)
           @ map (\<lambda>n. (URIRef u, SKOS_scopeNote, Literal (LStr n) (lang r) None)) (scopeNote r)
           @ map (\<lambda>n. (URIRef u, SKOS_historyNote, Literal (LStr n) (lang r) None)) (historyNote r)
        else [])
     @ (if deprecated r then [(URIRef u, OWL_deprecated, Literal (LBool True) None None)] else [])"
    by (simp add: g10_def' Let_def block_simps)
  have t6: "triples g6 = triples g
     @ (URIRef u, RDF_type, SKOS_Concept)
     # map (\<lambda>s. (URIRef u, if is_top_concept r then SKOS_topConceptOf else SKOS_inScheme,
               URIRef s)) (scheme_uris r)
     @ (case created r of None \<Rightarrow> []
        | Some d \<Rightarrow> [(URIRef u, DCTERMS_created, Literal (LStr (strftime_F d)) None (Some XSD_date))])
     @ (case modified r of None \<Rightarrow> []
        | Some d \<Rightarrow> [(URIRef u, DCTERMS_modified, Literal (LStr (strftime_F d)) None (Some XSD_date))])
     @ (case notation_field r of None \<Rightarrow> []
        | Some n \<Rightarrow> if n = [] then []
            else [(URIRef u, SKOS_notation,
                   Literal (LStr (if record_type r = TABLE_RECORD then ''T'' @ n else n)) None None)])
     @ (case prefLabel r of None \<Rightarrow> []
        | Some l \<Rightarrow> if l = [] then []
            else [(URIRef u, SKOS_prefLabel, Literal (LStr l) (lang r) None)])"
    by (simp only: g6_def block_simps append_assoc append_Cons append_Nil)
  show "triples g' = triples g
     @ (URIRef u, RDF_type, SKOS_Concept)
     # map (\<lambda>s. (URIRef u, if is_top_concept r then SKOS_topConceptOf else SKOS_inScheme,
               URIRef s)) (scheme_uris r)
     @ (case created r of None \<Rightarrow> []
        | Some d \<Rightarrow> [(URIRef u, DCTERMS_created, Literal (LStr (strftime_F d)) None (Some XSD_date))])
     @ (case modified r of None \<Rightarrow> []
        | Some d \<Rightarrow> [(URIRef u, DCTERMS_modified, Literal (LStr (strftime_F d)) None (Some XSD_date))])
     @ (case notation_field r of None \<Rightarrow> []
        | Some n \<Rightarrow> if n = [] then []
            else [(URIRef u, SKOS_notation,
                   Literal (LStr (if record_type r = TABLE_RECORD then ''T'' @ n else n)) None None)])
     @ (case prefLabel r of None \<Rightarrow> []
        | Some l \<Rightarrow> if l = [] then []
            else [(URIRef u, SKOS_prefLabel, Literal (LStr l) (lang r) None)])
     @ (if include_indexterms opts
        then map (\<lambda>l. (URIRef u, SKOS_altLabel, Literal (LStr (the (l ''term''))) (lang r) None))
               (altLabel r)
        else [])
     @ map (\<lambda>p. (URIRef u, SKOS_broader, URIRef p)) (broader r)
     @ (if include_notes opts
        then map (\<lambda>n. (URIRef u, SKOS_definition, Literal (LStr n) (lang r) None)) (definition_field r)
           @ map (\<lambda>n. (URIRef u, SKOS_editorialNote, Literal (LStr n) (lang r) None)) (editorialNote r)
           @ map (\<lambda>n. (URIRef u, SKOS_scopeNote, Literal (LStr n) (lang r) None)) (scopeNote r)
           @ map (\<lambda>n. (URIRef u, SKOS_historyNote, Literal (LStr n) (lang r) None)) (historyNote r)
        else [])
     @ (if deprecated r then [(URIRef u, OWL_deprecated, Literal (LBool True) None None)] else [])
     @ (if include_components opts \<and> components r \<noteq> []
        then triples (fst (add_components (URIRef u) r \<lparr>triples = [], next_bnode = next_bnode g\<rparr>))
        else [])
     @ map (\<lambda>(k, v). (URIRef u, WD k, Literal (LStr v) (lang r) None)) (webDeweyExtras r)"
    by (simp only: res add_webDeweyExtras_triples lang' t11 t10 t7 t6
          append_assoc append_Cons append_Nil)
qed









lemma map2_upt_index:
  "map2 f [k ..< k + length xs] xs = map (\<lambda>j. f (k + j) (xs ! j)) [0..<length xs]"
  by (rule nth_equalityI) simp_all

lemma map_upt_index:
  "map f [k ..< k + n] = map (\<lambda>j. f (k + j)) [0..<n]"
  by (rule nth_equalityI) simp_all







section \<open>The anonymous nodes of a run\<close>

text \<open>
  Every graph a run builds satisfies \<open>bnodes_fresh\<close>: the empty graph does, and the
  graph builder, \<open>process_record\<close> and the loop keep it.
\<close>

lemma known_mono: "known k n \<Longrightarrow> k \<le> k' \<Longrightarrow> known k' n"
  by (auto simp: known_def split: node.splits)

lemma component_loop_known:
  assumes "list_all (\<lambda>t. known (next_bnode g) (fst t)) (triples g)" and "known (next_bnode g) b1"
  shows "list_all (\<lambda>t. known (next_bnode g + length cs) (fst t))
           (triples (snd (component_loop r cs b1 g)))"
  using assms
proof (induction cs arbitrary: b1 g)
  case Nil then show ?case by simp
next
  case (Cons c cs)
  let ?g = "graph_add (BNode (next_bnode g), RDF_first, PlainStr (get_uri r c))
               (graph_add (b1, RDF_rest, BNode (next_bnode g)) (snd (new_BNode g)))"
  have "list_all (\<lambda>t. known (next_bnode ?g + length cs) (fst t))
          (triples (snd (component_loop r cs (BNode (next_bnode g)) ?g)))"
    using Cons.prems
    by (intro Cons.IH) (auto simp: known_def list_all_iff split: node.splits)
  then show ?case by (simp add: Let_def split_beta)
qed

lemma add_components_known:
  assumes "list_all (\<lambda>t. known (next_bnode g) (fst t)) (triples g)" and "known 0 u"
  shows "list_all (\<lambda>t. known (next_bnode g + length (components r)) (fst t))
           (triples (fst (add_components u r g)))"
proof (cases "components r")
  case Nil with assms show ?thesis by (simp add: add_components_def)
next
  case (Cons c cs)
  let ?g = "graph_add (BNode (next_bnode g), RDF_first, URIRef (get_uri r c))
              (graph_add (u, MADS_componentList, BNode (next_bnode g)) (snd (new_BNode g)))"
  have "list_all (\<lambda>t. known (next_bnode ?g + length cs) (fst t))
          (triples (snd (component_loop (r\<lparr>components := cs\<rparr>) cs (BNode (next_bnode g)) ?g)))"
    using assms
    by (intro component_loop_known)
       (auto simp: known_def list_all_iff split: node.splits)
  moreover have "known (Suc (next_bnode g + length cs))
      (fst (component_loop (r\<lparr>components := cs\<rparr>) cs (BNode (next_bnode g)) ?g))"
    by (simp add: component_loop_last last_bnodes known_def del: upt_Suc last.simps)
  ultimately show ?thesis
    by (simp add: add_components_def Cons Let_def split_beta)
qed

lemma add_record_to_graph_fresh:
  assumes run: "add_record_to_graph g r opts = Inr (g', r')" and fresh: "bnodes_fresh g"
  shows "bnodes_fresh g'"
proof -
  from run obtain u where u: "uri r = Some u"
    by (cases "uri r") (simp_all add: add_record_to_graph_def)
  note t = add_record_to_graph_Inr(1) [OF run u]
  note n = add_record_to_graph_Inr(2) [OF run u]
  let ?k' = "next_bnode g'"
  have old: "list_all (\<lambda>t. known ?k' (fst t)) (triples g)"
    using fresh n by (auto simp: bnodes_fresh_def list_all_iff intro: known_mono)
  have chain: "list_all (\<lambda>t. known ?k' (fst t))
      (triples (fst (add_components (URIRef u) r \<lparr>triples = [], next_bnode = next_bnode g\<rparr>)))"
    if "include_components opts"
    using add_components_known [of "\<lparr>triples = [], next_bnode = next_bnode g\<rparr>" "URIRef u" r]
      n that by (simp add: known_def)
  have k: "known ?k' (URIRef u)" by (simp add: known_def)
  show ?thesis
    unfolding bnodes_fresh_def t using old chain
    by (auto simp: k list_all_iff split: option.splits)
qed

lemma process_record_fresh:
  assumes "process_record c g rec opts = Inr (g', out)" and "bnodes_fresh g"
  shows "bnodes_fresh g'"
  using assms
  by (auto simp: process_record_def split: option.splits if_splits sum.splits
           dest: add_record_to_graph_fresh)

lemma record_loop_fresh:
  assumes "record_loop c opts n records g lg = Inr (g', lg')" and "bnodes_fresh g"
  shows "bnodes_fresh g'"
  using assms
proof (induction records arbitrary: n g lg)
  case Nil then show ?case by simp
next
  case (Cons rec rest)
  show ?case
  proof (cases "process_record c g rec opts")
    case (Inl e)
    with Cons.prems(1) obtain m where e: "e = InvalidRecordError m"
      by (cases e) (simp_all add: Let_def)
    with Inl Cons.prems Cons.IH show ?thesis by (auto simp: Let_def)
  next
    case (Inr p)
    obtain g1 out where p: "p = (g1, out)" by (cases p)
    with Inr Cons.prems(2) have "bnodes_fresh g1" by (auto dest: process_record_fresh)
    with Inr p Cons.prems(1) Cons.IH show ?thesis by (auto simp: Let_def)
  qed
qed

lemma empty_graph_fresh: "bnodes_fresh \<lparr>triples = [], next_bnode = 0\<rparr>"
  by (simp add: bnodes_fresh_def)

section \<open>Leaders that are rejected\<close>

text \<open>
  A missing leader and a leader whose position 6 is not \<open>w\<close> raise
  \<^verbatim>\<open>InvalidRecordError\<close>, which the loop catches: the graph stays as it was and the loop
  goes on. A leader of fewer than seven characters raises \<^verbatim>\<open>IndexError\<close> at
  \<^verbatim>\<open>leader[6]\<close>, which the loop does not catch.
\<close>

lemma absent_leader_skipped:
  assumes "leader_text c rec = None"
  shows "process_record c g rec opts = Inl (InvalidRecordError ''Record does not have a leader'')"
    and "record_loop c opts n (rec # rest) g lg =
           record_loop c opts (Suc n) rest g
             (lg @ [Log DEBUG ''Ignoring record %d: %s''
                      [ANat (Suc n), AStr ''Record does not have a leader'']] @ progress (Suc n))"
  using assms by (simp_all add: process_record_def)

lemma wrong_marker_skipped:
  assumes "leader_text c rec = Some leader" and "6 < length leader"
    and "leader ! 6 \<noteq> CHR ''w''"
  shows "process_record c g rec opts =
           Inl (InvalidRecordError ''Record is not a Marc21 Classification record'')"
    and "record_loop c opts n (rec # rest) g lg =
           record_loop c opts (Suc n) rest g
             (lg @ [Log DEBUG ''Ignoring record %d: %s''
                      [ANat (Suc n), AStr ''Record is not a Marc21 Classification record'']]
                 @ progress (Suc n))"
  using assms by (simp_all add: process_record_def)

lemma short_leader_raises:
  assumes "leader_text c rec = Some leader" and "length leader \<le> 6"
  shows "process_record c g rec opts = Inl IndexError"
    and "record_loop c opts n (rec # rest) g lg = Inl IndexError"
  using assms by (simp_all add: process_record_def)

text \<open>
  Claim C2. The claim holds for the missing leader and for the wrong marker (the two
  lemmas above) and fails for the short leader: a record whose leader is the five
  characters \<open>00000\<close> makes \<open>process_record\<close> raise \<^verbatim>\<open>IndexError\<close>, and a run over
  a document that holds this record ends with that exception, the record after it never
  being processed.
\<close>

theorem short_leader_ends_run:
  "process_record (fixed_collaborators algebra_record) empty_graph ''00000'' no_options
     = Inl IndexError
   \<and> main (fixed_collaborators algebra_record) turtle_args
       [''00000'', ''00000nw  a2200000n  4500''] = Inl IndexError"
  by (simp add: process_record_def main_def fixed_collaborators_def turtle_args_def)

section \<open>The statements of one record\<close>





section \<open>The component chain\<close>





section \<open>What the call does to the record\<close>





section \<open>Records without an identifier, and the empty result\<close>

text \<open>
  Claim C6. A record with a well-formed classification leader whose normalized form has
  no identifier (\<open>uri\<close> is \<open>None\<close>) makes \<open>process_record\<close> return normally: the graph
  is the one it was given, whatever the other fields of the record hold, and the only
  trace is one log record of level \<open>DEBUG\<close>. The loop goes on with the next record.
\<close>

theorem unresolved_identifier_skipped:
  assumes "leader_text c rec = Some leader" and "6 < length leader"
    and "leader ! 6 = CHR ''w''"
    and "ClassificationRecord c rec opts = Inr r" and "uri r = None"
  shows "process_record c g rec opts = Inr (g, [Log DEBUG
           ''Ignoring record because: No known concept scheme detected, and no manual URI template given''
           []])
       \<and> record_loop c opts n (rec # rest) g lg =
           record_loop c opts (Suc n) rest g (lg @ [Log DEBUG
           ''Ignoring record because: No known concept scheme detected, and no manual URI template given''
           []] @ progress (Suc n))"
proof -
  have p: "process_record c g rec opts = Inr (g, [Log DEBUG
           ''Ignoring record because: No known concept scheme detected, and no manual URI template given''
           []])"
    using assms by (simp add: process_record_def)
  show ?thesis
    unfolding record_loop.simps p by (simp add: Let_def)
qed

theorem unresolved_identifier_skipped_witness:
  "process_record (fixed_collaborators (algebra_record\<lparr>uri := None\<rparr>)) empty_graph
     ''00000nw  a2200000n  4500'' no_options
   = Inr (empty_graph, [Log DEBUG
           ''Ignoring record because: No known concept scheme detected, and no manual URI template given''
           []])"
proof -
  have "process_record (fixed_collaborators (algebra_record\<lparr>uri := None\<rparr>)) empty_graph
     ''00000nw  a2200000n  4500'' no_options
     = Inr (empty_graph, [Log DEBUG
           ''Ignoring record because: No known concept scheme detected, and no manual URI template given''
           []])
    \<and> record_loop (fixed_collaborators (algebra_record\<lparr>uri := None\<rparr>)) no_options 0
         (''00000nw  a2200000n  4500'' # []) empty_graph []
       = record_loop (fixed_collaborators (algebra_record\<lparr>uri := None\<rparr>)) no_options (Suc 0)
         [] empty_graph ([] @ [Log DEBUG
           ''Ignoring record because: No known concept scheme detected, and no manual URI template given''
           []] @ progress (Suc 0))"
    by (rule unresolved_identifier_skipped [where leader = "''00000nw  a2200000n  4500''"
          and r = "algebra_record\<lparr>uri := None\<rparr>"])
       (simp_all add: fixed_collaborators_def algebra_record_def)
  then show ?thesis by simp
qed

text \<open>
  Claim C7. When the graph is empty after the loop, \<open>main\<close> returns normally with a
  warning as its last log record; no file was opened and nothing was written, so no
  serializer was called.
\<close>

theorem empty_graph_no_output:
  assumes "outformat a = Some fmt" and "fmt \<in> set [''turtle'', ''jskos'', ''ndjson'']"
    and "record_loop c
           \<lparr>base_uri = args_base_uri a, scheme_uri = args_scheme_uri a,
            table_scheme_uri = args_table_scheme_uri a,
            include_indexterms = args_indexterms a, include_notes = args_notes a,
            include_components = args_components a\<rparr>
           0 records \<lparr>triples = [], next_bnode = 0\<rparr>
           [Log INFO ''Parsing: %s'' [AStr (infile a)]] = Inr (g, lg)"
    and "triples g = []"
  shows "main c a records =
           Inr \<lparr>logs = lg @ [Log WARNING ''RDF result is empty!'' []],
                handler_level = (if verbose a then DEBUG else INFO),
                opened = None, written = []\<rparr>"
  using assms by (simp add: main_def Let_def)

theorem empty_graph_no_output_witness:
  "main (fixed_collaborators algebra_record) turtle_args [''00000nz  a2200000n  4500''] =
     Inr \<lparr>logs = [Log INFO ''Parsing: %s'' [AStr ''in.xml''],
                  Log DEBUG ''Ignoring record %d: %s''
                    [ANat 1, AStr ''Record is not a Marc21 Classification record''],
                  Log WARNING ''RDF result is empty!'' []],
          handler_level = INFO, opened = None, written = []\<rparr>"
  using empty_graph_no_output [of turtle_args "''turtle''" "fixed_collaborators algebra_record"
      "[''00000nz  a2200000n  4500'']" "\<lparr>triples = [], next_bnode = 0\<rparr>"
      "[Log INFO ''Parsing: %s'' [AStr ''in.xml''],
        Log DEBUG ''Ignoring record %d: %s''
          [ANat 1, AStr ''Record is not a Marc21 Classification record'']]"]
  by (simp add: turtle_args_def fixed_collaborators_def process_record_def progress_def)

section \<open>The sort keys of the Turtle output\<close>

text \<open>A match has as many groups as its pattern, and the subject contains the pattern's
  literals with the groups in their places.\<close>

lemma first_some_Some:
  "first_some f k = Some r \<Longrightarrow> \<exists>j. 0 < j \<and> j \<le> k \<and> f j = Some r"
  by (induction k) (auto split: option.splits intro: le_SucI)

lemma match_here_sound:
  "match_here p s = Some gs \<Longrightarrow> length gs = n_groups p \<and> (\<exists>post. s = render p gs @ post)"
proof (induction p s arbitrary: gs rule: match_here.induct)
  case (1 s) then show ?case by simp
next
  case (2 c p s) then show ?case by (auto split: list.splits if_splits)
next
  case (3 cls p s)
  from first_some_Some [OF "3.prems" [simplified]]
  obtain j where "map_option ((#) (take j s)) (match_here p (drop j s)) = Some gs" by blast
  then obtain gs' where m: "match_here p (drop j s) = Some gs'" and gs: "gs = take j s # gs'"
    by auto
  from "3.IH" [OF m] obtain post where
    "length gs' = n_groups p" and d: "drop j s = render p gs' @ post" by blast
  moreover have "s = take j s @ render p gs' @ post"
    using append_take_drop_id [of j s] d by simp
  ultimately show ?case using gs by auto
qed

lemma search_sound:
  "search p s = Some gs \<Longrightarrow> length gs = n_groups p \<and> (\<exists>pre post. s = pre @ render p gs @ post)"
proof (induction s)
  case Nil
  then show ?case using match_here_sound [of p "[]" gs] by (auto intro: exI [of _ "[]"])
next
  case (Cons x xs)
  show ?case
  proof (cases "match_here p (x # xs)")
    case None
    with Cons.prems have "search p xs = Some gs" by simp
    from Cons.IH [OF this] obtain pre post where
      "length gs = n_groups p" "xs = pre @ render p gs @ post" by blast
    then have "x # xs = (x # pre) @ render p gs @ post" by simp
    with \<open>length gs = n_groups p\<close> show ?thesis by blast
  next
    case (Some gs')
    with Cons.prems have "match_here p (x # xs) = Some gs" by simp
    from match_here_sound [OF this] show ?thesis by (auto intro: exI [of _ "[]"])
  qed
qed

lemma length_2: "length gs = Suc (Suc 0) \<Longrightarrow> \<exists>a b. gs = [a, b]"
  by (cases gs; cases "tl gs") auto

lemma length_1: "length gs = Suc 0 \<Longrightarrow> \<exists>a. gs = [a]"
  by (cases gs) auto

text \<open>The patterns begin with a slash and end with \<open>/e\<close>: they are made for the
  subject's IRI, and neither is found in a bare notation.\<close>

lemma bare_notation_no_key: "subject_key sorters ''512'' = None"
  by (simp add: sorters_def table_pattern_def schedule_pattern_def)

text \<open>
  Claim C8. The key of a subject in which the table pattern is found is \<open>T\<close>, the first
  group, \<open>--\<close> and the second group, where the subject contains the two groups as
  \<open>/a--b/e\<close>; the key of a subject in which only the schedule pattern is found is \<open>A\<close>
  and the group, where the subject contains the group as \<open>/a/e\<close>. The key functions map
  the notation 512 to \<open>A512\<close> and the groups of 512--1 to \<open>T512--1\<close>, and these are the
  keys of the subjects of class 512 and of 512--1 of edition 23.
\<close>

theorem sorter_keys:
  "(search table_pattern s = Some gs \<longrightarrow>
      (\<exists>a b pre post. gs = [a, b] \<and> s = pre @ ''/'' @ a @ ''--'' @ b @ ''/e'' @ post
         \<and> subject_key sorters s = Some (Inr (''T'' @ a @ ''--'' @ b))))
   \<and> (search table_pattern s = None \<and> search schedule_pattern s = Some gs \<longrightarrow>
      (\<exists>a pre post. gs = [a] \<and> s = pre @ ''/'' @ a @ ''/e'' @ post
         \<and> subject_key sorters s = Some (Inr (''A'' @ a))))
   \<and> schedule_key [''512''] = Inr ''A512''
   \<and> table_key [''512'', ''1''] = Inr ''T512--1''
   \<and> subject_key sorters ''http://dewey.info/class/512/e23/'' = Some (Inr ''A512'')
   \<and> subject_key sorters ''http://dewey.info/class/512--1/e23/'' = Some (Inr ''T512--1'')"
proof (intro conjI impI)
  assume t: "search table_pattern s = Some gs"
  from search_sound [OF t] obtain pre post where
    l: "length gs = n_groups table_pattern" and s: "s = pre @ render table_pattern gs @ post"
    by blast
  from l obtain a b where gs: "gs = [a, b]"
    using length_2 [of gs] by (auto simp: table_pattern_def)
  have "s = pre @ ''/'' @ a @ ''--'' @ b @ ''/e'' @ post"
    using s gs by (simp add: table_pattern_def)
  moreover have "subject_key sorters s = Some (Inr (''T'' @ a @ ''--'' @ b))"
    using t gs by (simp add: sorters_def)
  ultimately show "\<exists>a b pre post. gs = [a, b] \<and> s = pre @ ''/'' @ a @ ''--'' @ b @ ''/e'' @ post
         \<and> subject_key sorters s = Some (Inr (''T'' @ a @ ''--'' @ b))"
    using gs by blast
next
  assume "search table_pattern s = None \<and> search schedule_pattern s = Some gs"
  then have n: "search table_pattern s = None" and t: "search schedule_pattern s = Some gs"
    by simp_all
  from search_sound [OF t] obtain pre post where
    l: "length gs = n_groups schedule_pattern" and s: "s = pre @ render schedule_pattern gs @ post"
    by blast
  from l obtain a where gs: "gs = [a]"
    using length_1 [of gs] by (auto simp: schedule_pattern_def)
  have "s = pre @ ''/'' @ a @ ''/e'' @ post"
    using s gs by (simp add: schedule_pattern_def)
  moreover have "subject_key sorters s = Some (Inr (''A'' @ a))"
    using n t gs by (simp add: sorters_def)
  ultimately show "\<exists>a pre post. gs = [a] \<and> s = pre @ ''/'' @ a @ ''/e'' @ post
         \<and> subject_key sorters s = Some (Inr (''A'' @ a))"
    using gs by blast
next
  show "schedule_key [''512''] = Inr ''A512''" by simp
next
  show "table_key [''512'', ''1''] = Inr ''T512--1''" by simp
next
  show "subject_key sorters ''http://dewey.info/class/512/e23/'' = Some (Inr ''A512'')"
    by (simp add: sorters_def table_pattern_def schedule_pattern_def)
next
  show "subject_key sorters ''http://dewey.info/class/512--1/e23/'' = Some (Inr ''T512--1'')"
    by (simp add: sorters_def table_pattern_def schedule_pattern_def)
qed

theorem sorter_keys_witness:
  "(\<exists>a b pre post. [''512'', ''1''] = [a, b]
       \<and> ''http://dewey.info/class/512--1/e23/'' = pre @ ''/'' @ a @ ''--'' @ b @ ''/e'' @ post
       \<and> subject_key sorters ''http://dewey.info/class/512--1/e23/''
           = Some (Inr (''T'' @ a @ ''--'' @ b)))
   \<and> (\<exists>a pre post. [''512''] = [a]
       \<and> ''http://dewey.info/class/512/e23/'' = pre @ ''/'' @ a @ ''/e'' @ post
       \<and> subject_key sorters ''http://dewey.info/class/512/e23/'' = Some (Inr (''A'' @ a)))"
proof -
  have t1: "search table_pattern ''http://dewey.info/class/512--1/e23/'' = Some [''512'', ''1'']"
    by (simp add: table_pattern_def)
  have t2: "search table_pattern ''http://dewey.info/class/512/e23/'' = None
            \<and> search schedule_pattern ''http://dewey.info/class/512/e23/'' = Some [''512'']"
    by (simp add: table_pattern_def schedule_pattern_def)
  show ?thesis
    using sorter_keys [of "''http://dewey.info/class/512--1/e23/''" "[''512'', ''1'']"]
      sorter_keys [of "''http://dewey.info/class/512/e23/''" "[''512'']"] t1 t2
    by blast
qed

section \<open>Line-delimited JSON\<close>






end
